theory Spec2Isabelle
  imports Main "HOL-Library.Word" "HOL-Library.Stream"
begin

section \<open>The Raft role engine of pkg/raft/raft.go\<close>

text \<open>
  A shallow embedding of the per-replica state machine of \<^verbatim>\<open>pkg/raft/raft.go\<close>.
  Go's \<^verbatim>\<open>uint64\<close> is \<open>64 word\<close> (addition wraps), Go's \<^verbatim>\<open>int\<close> timers are
  \<open>int\<close>. A method with a pointer receiver takes the replica and returns the updated
  replica; a panic is the left injection of a sum.
\<close>

subsection \<open>Protocol buffer types (package raftpb)\<close>

type_synonym u64 = "64 word"
type_synonym PeerID = u64

text \<open>\<^verbatim>\<open>None pb.PeerID = 0\<close>, the placeholder used when there is no leader.\<close>

definition NoneID :: PeerID where
  "NoneID = 0"

datatype StateType = StateFollower | StateCandidate | StateLeader | StatePreCandidate

datatype CampaignType = campaignPreElection | campaignElection | campaignTransfer

text \<open>A campaign type is a Go string; its bytes travel in the context of a vote request.\<close>

fun CampaignType_bytes :: "CampaignType \<Rightarrow> string" where
  "CampaignType_bytes campaignPreElection = ''CampaignPreElection''"
| "CampaignType_bytes campaignElection = ''CampaignElection''"
| "CampaignType_bytes campaignTransfer = ''CampaignTransfer''"

datatype MessageType =
    MsgHup | MsgBeat | MsgProp | MsgApp | MsgAppResp | MsgVote | MsgVoteResp
  | MsgSnap | MsgHeartbeat | MsgHeartbeatResp | MsgUnreachable | MsgSnapStatus
  | MsgCheckQuorum | MsgTransferLeader | MsgTimeoutNow | MsgPreVote | MsgPreVoteResp
  | MsgStorageAppend | MsgStorageAppendResp | MsgStorageApply | MsgStorageApplyResp
  | MsgForgetLeader

datatype EntryType = EntryNormal | EntryConfChange | EntryConfChangeV2

record Entry =
  e_Term :: u64
  e_Index :: u64
  e_Type :: EntryType
  e_Data :: string

text \<open>\<^verbatim>\<open>pb.Entry{Type: t}\<close>: every other field has Go's zero value.\<close>

definition Entry_of_Type :: "EntryType \<Rightarrow> Entry" where
  "Entry_of_Type t = \<lparr>e_Term = 0, e_Index = 0, e_Type = t, e_Data = []\<rparr>"

record ConfState =
  cs_Voters :: "PeerID list"
  cs_Learners :: "PeerID list"
  cs_VotersOutgoing :: "PeerID list"
  cs_LearnersNext :: "PeerID list"
  cs_AutoLeave :: bool

record Snapshot =
  snap_Index :: u64
  snap_Term :: u64
  snap_ConfState :: ConfState
  snap_Data :: string

record Message =
  m_Type :: MessageType
  m_To :: PeerID
  m_From :: PeerID
  m_Term :: u64
  m_LogTerm :: u64
  m_Index :: u64
  m_Entries :: "Entry list"
  m_Commit :: u64
  m_Match :: u64
  m_Reject :: bool
  m_RejectHint :: u64
  m_Snapshot :: "Snapshot option"
  m_Context :: string

text \<open>The zero-valued message of a given type, the base of every Go message literal.\<close>

definition Msg :: "MessageType \<Rightarrow> Message" where
  "Msg t = \<lparr>m_Type = t, m_To = 0, m_From = 0, m_Term = 0, m_LogTerm = 0, m_Index = 0,
     m_Entries = [], m_Commit = 0, m_Match = 0, m_Reject = False, m_RejectHint = 0,
     m_Snapshot = None, m_Context = []\<rparr>"

text \<open>
  Modelled from the spec: \<^verbatim>\<open>voteRespMsgType\<close> (util.go is not among the sources) maps a
  vote request to its response type; the spec's message table pairs Vote with VoteResp and
  PreVote with PreVoteResp. The Go function panics on any other type.
\<close>

datatype panic = Panic string

fun voteRespMsgType :: "MessageType \<Rightarrow> panic + MessageType" where
  "voteRespMsgType MsgVote = Inr MsgVoteResp"
| "voteRespMsgType MsgPreVote = Inr MsgPreVoteResp"
| "voteRespMsgType t = Inl (Panic ''not a vote message'')"

subsection \<open>The log view (raftLog)\<close>

record entryID =
  eid_term :: u64
  eid_index :: u64

record logMark =
  mark_term :: u64
  mark_index :: u64

record logSlice =
  ls_term :: u64
  ls_prev :: entryID
  ls_entries :: "Entry list"

text \<open>
  Modelled from the spec: the type \<^verbatim>\<open>raftLog\<close> (log.go and log_unstable.go are not among
  the sources). Section 4.1 of the spec describes it as a unified view of the stable prefix
  and the unstable suffix after an optional snapshot, with the committed and applied
  markers and the accepted term. The view is one list of entries after the snapshot point
  \<open>(snapTerm, snapIndex)\<close>, which is zero when there is no snapshot. \<open>accTerm\<close> is the
  term of the leader whose appends were accepted last; \<open>pendingSnap\<close> says that a snapshot
  is waiting to be applied or is being applied.
\<close>

record raftLog =
  snapIndex :: u64
  snapTerm :: u64
  entries :: "Entry list"
  committed :: u64
  applied :: u64
  accTerm :: u64
  pendingSnap :: bool
  maxApplyingEntsSize :: u64

datatype logError = ErrCompacted | ErrUnavailable

text \<open>
  Modelled from the spec: \<^verbatim>\<open>raftLog.lastEntryID\<close>, "last of unstable if non-empty, else
  last stable, else snapshot-meta, else zero".
\<close>

definition lastEntryID :: "raftLog \<Rightarrow> entryID" where
  "lastEntryID l =
     (if entries l = [] then \<lparr>eid_term = snapTerm l, eid_index = snapIndex l\<rparr>
      else \<lparr>eid_term = e_Term (last (entries l)), eid_index = e_Index (last (entries l))\<rparr>)"

definition lastIndex :: "raftLog \<Rightarrow> u64" where
  "lastIndex l = eid_index (lastEntryID l)"

text \<open>
  Modelled from the spec: \<^verbatim>\<open>raftLog.term\<close>, "term(index) -> term | Compacted |
  Unavailable": compacted below the snapshot point, the snapshot's term at it, the stored
  entry's term in the log, unavailable beyond it.
\<close>

definition termAt :: "raftLog \<Rightarrow> u64 \<Rightarrow> logError + u64" where
  "termAt l i =
     (if i < snapIndex l then Inl ErrCompacted
      else if i = snapIndex l then Inr (snapTerm l)
      else (case find (\<lambda>e. e_Index e = i) (entries l) of
              Some e \<Rightarrow> Inr (e_Term e)
            | None \<Rightarrow> Inl ErrUnavailable))"

text \<open>
  Modelled from the spec: \<^verbatim>\<open>raftLog.matchTerm\<close>, "equality check of stored term at
  eid.index"; an index whose term cannot be read matches nothing.
\<close>

definition matchTerm :: "raftLog \<Rightarrow> entryID \<Rightarrow> bool" where
  "matchTerm l eid =
     (case termAt l (eid_index eid) of Inr t \<Rightarrow> t = eid_term eid | Inl err \<Rightarrow> False)"

text \<open>
  Modelled from the spec: \<^verbatim>\<open>raftLog.isUpToDate\<close>, the Raft rule of section 4.3.3:
  "candLogTerm > ours OR (candLogTerm == ours && candIndex >= ours)", ours being
  \<open>lastEntryID\<close>.
\<close>

definition isUpToDate :: "raftLog \<Rightarrow> entryID \<Rightarrow> bool" where
  "isUpToDate l cand =
     (eid_term cand > eid_term (lastEntryID l) \<or>
      (eid_term cand = eid_term (lastEntryID l) \<and> eid_index cand \<ge> eid_index (lastEntryID l)))"

text \<open>
  Modelled from the spec: \<^verbatim>\<open>raftLog.commitTo\<close>, "raises committed to
  min(mark.index, lastIndex()) iff mark.term == accTerm(); never regresses".
\<close>

definition commitTo :: "raftLog \<Rightarrow> logMark \<Rightarrow> raftLog" where
  "commitTo l mark =
     (if mark_term mark = accTerm l \<and> committed l < min (mark_index mark) (lastIndex l)
      then l\<lparr>committed := min (mark_index mark) (lastIndex l)\<rparr>
      else l)"

text \<open>
  Modelled from the spec: \<^verbatim>\<open>logSlice.valid\<close> and \<^verbatim>\<open>logSlice.lastIndex\<close> (types.go is
  not among the sources). The spec's data model asks of log entries an index that increases
  by one and a term that never decreases; a slice is a run of such entries after \<open>prev\<close>,
  none of them newer than the leader term of the slice.
\<close>

fun entries_follow :: "entryID \<Rightarrow> Entry list \<Rightarrow> bool" where
  "entries_follow prev [] = True"
| "entries_follow prev (e # es) =
     (\<not> e_Term e < eid_term prev \<and> e_Index e = eid_index prev + 1 \<and>
      entries_follow \<lparr>eid_term = e_Term e, eid_index = e_Index e\<rparr> es)"

definition ls_lastEntryID :: "logSlice \<Rightarrow> entryID" where
  "ls_lastEntryID s =
     (if ls_entries s = [] then ls_prev s
      else \<lparr>eid_term = e_Term (last (ls_entries s)), eid_index = e_Index (last (ls_entries s))\<rparr>)"

definition ls_lastIndex :: "logSlice \<Rightarrow> u64" where
  "ls_lastIndex s = eid_index (ls_lastEntryID s)"

definition ls_valid :: "logSlice \<Rightarrow> bool" where
  "ls_valid s =
     (entries_follow (ls_prev s) (ls_entries s) \<and> \<not> ls_term s < eid_term (ls_lastEntryID s))"

text \<open>
  Modelled from the spec: \<^verbatim>\<open>raftLog.append\<close>, "append a contiguous block anchored at
  (prev.term, prev.index) under leader-term slice.term; returns false iff slice is invalid
  against current unstable state": the slice must start at the last entry and must not come
  from a leader older than the accepted term. \<open>None\<close> is the result false. A successful
  append makes the slice's leader term the accepted term.
\<close>

definition append_log :: "raftLog \<Rightarrow> logSlice \<Rightarrow> raftLog option" where
  "append_log l a =
     (if ls_term a < accTerm l \<or> ls_prev a \<noteq> lastEntryID l then None
      else Some (l\<lparr>entries := entries l @ ls_entries a, accTerm := ls_term a\<rparr>))"

text \<open>
  Modelled from the spec: \<^verbatim>\<open>raftLog.maybeAppend\<close>, "follower-side; truncate conflicting
  suffix at the first term mismatch, then append non-duplicate tail. No-op if the slice is
  already fully contained". It fails (\<open>None\<close>) when the log does not hold the slice's
  \<open>prev\<close> entry. \<open>skip_matching\<close> drops the entries of the slice that the log already
  holds; what is left starts at the first mismatch.
\<close>

fun skip_matching :: "raftLog \<Rightarrow> Entry list \<Rightarrow> Entry list" where
  "skip_matching l [] = []"
| "skip_matching l (e # es) =
     (if matchTerm l \<lparr>eid_term = e_Term e, eid_index = e_Index e\<rparr> then skip_matching l es
      else e # es)"

definition maybeAppend :: "raftLog \<Rightarrow> logSlice \<Rightarrow> raftLog option" where
  "maybeAppend l a =
     (if \<not> matchTerm l (ls_prev a) then None
      else (case skip_matching l (ls_entries a) of
              [] \<Rightarrow> Some (l\<lparr>accTerm := ls_term a\<rparr>)
            | e # es \<Rightarrow>
                Some (l\<lparr>entries := filter (\<lambda>x. e_Index x < e_Index e) (entries l) @ e # es,
                       accTerm := ls_term a\<rparr>)))"

text \<open>
  Modelled from the spec: \<^verbatim>\<open>raftLog.findConflictByTerm\<close>, "returns the largest
  index' <= index such that the term stored at index' is <= term", with that term; (0, 0)
  when there is none.
\<close>

definition findConflictByTerm :: "raftLog \<Rightarrow> u64 \<Rightarrow> u64 \<Rightarrow> u64 \<times> u64" where
  "findConflictByTerm l index t =
     (case filter (\<lambda>(i, ti). i \<le> index \<and> ti \<le> t)
             (rev ((snapIndex l, snapTerm l) # map (\<lambda>e. (e_Index e, e_Term e)) (entries l))) of
        [] \<Rightarrow> (0, 0)
      | p # ps \<Rightarrow> p)"

text \<open>
  Modelled from the spec: \<^verbatim>\<open>raftLog.scan\<close>, "bounded paginated iteration over
  committed-not-yet-applied entries": the entries with an index in \<open>[lo, hi)\<close>, or an error
  when the range reaches below the snapshot or beyond the log. The pages are not modelled:
  every page of the source is read from the same range.
\<close>

definition scan :: "raftLog \<Rightarrow> u64 \<Rightarrow> u64 \<Rightarrow> logError + Entry list" where
  "scan l lo hi =
     (if lo \<le> snapIndex l then Inl ErrCompacted
      else if lastIndex l + 1 < hi then Inl ErrUnavailable
      else Inr (filter (\<lambda>e. lo \<le> e_Index e \<and> e_Index e < hi) (entries l)))"

text \<open>
  Modelled from the spec: \<^verbatim>\<open>raftLog.hasNextOrInProgressSnapshot\<close>, the "optional pending
  snapshot" of section 4.1.
\<close>

definition hasNextOrInProgressSnapshot :: "raftLog \<Rightarrow> bool" where
  "hasNextOrInProgressSnapshot l = pendingSnap l"

text \<open>
  Modelled from the spec: \<^verbatim>\<open>payloadsSize\<close> (util.go), "the sum of payload sizes"; the
  payload of an entry is its data, so an empty entry has size 0.
\<close>

definition payloadSize :: "Entry \<Rightarrow> u64" where
  "payloadSize e = of_nat (length (e_Data e))"

definition payloadsSize :: "Entry list \<Rightarrow> u64" where
  "payloadsSize ents = sum_list (map payloadSize ents)"

subsection \<open>Configuration, progress and votes (packages quorum and tracker)\<close>

text \<open>
  Modelled from the spec: \<^verbatim>\<open>quorum.Config\<close> (not among the sources), "voter and learner
  sets, optionally joint (two voter sets)". \<open>Voters0\<close> is the incoming voter set
  \<^verbatim>\<open>Voters[0]\<close>, \<open>Voters1\<close> the outgoing one \<^verbatim>\<open>Voters[1]\<close>, which is empty unless the
  configuration is joint. A set of peers is a list without regard to order.
\<close>

record Config =
  Voters0 :: "PeerID list"
  Voters1 :: "PeerID list"
  Learners :: "PeerID list"
  LearnersNext :: "PeerID list"
  AutoLeave :: bool

text \<open>
  Modelled from the spec: \<^verbatim>\<open>JointConfig.IDs\<close>, the voters of either set; the campaign
  sorts them.
\<close>

definition Voters_IDs :: "Config \<Rightarrow> PeerID list" where
  "Voters_IDs c = remdups (Voters0 c @ Voters1 c)"

datatype ProgressState = StateProbe | StateReplicate | StateSnapshot

text \<open>
  Modelled from the spec: \<^verbatim>\<open>tracker.Inflights\<close>, a bounded window \<open>(maxMsgs, maxBytes)\<close>
  of the appends in flight, each with its last index and its bytes.
\<close>

record Inflights =
  infl_size :: int
  infl_maxBytes :: u64
  infl_buffer :: "(u64 \<times> u64) list"

definition NewInflights :: "int \<Rightarrow> u64 \<Rightarrow> Inflights" where
  "NewInflights n maxBytes = \<lparr>infl_size = n, infl_maxBytes = maxBytes, infl_buffer = []\<rparr>"

text \<open>
  Modelled from the spec: \<^verbatim>\<open>tracker.Progress\<close>, the per-peer replication state of the
  spec's data model. The state of a zero-valued progress is \<open>StateProbe\<close>.
\<close>

record Progress =
  pr_Match :: u64
  pr_Next :: u64
  pr_State :: ProgressState
  pr_PendingSnapshot :: u64
  pr_RecentActive :: bool
  pr_MsgAppProbesPaused :: bool
  pr_Inflights :: Inflights
  pr_IsLearner :: bool

text \<open>
  Modelled from the spec: \<^verbatim>\<open>Progress.BecomeReplicate\<close>, "sets Next = Match + 1, enables
  pipelining".
\<close>

definition BecomeReplicate :: "Progress \<Rightarrow> Progress" where
  "BecomeReplicate pr = pr\<lparr>pr_State := StateReplicate, pr_Next := pr_Match pr + 1\<rparr>"

text \<open>
  Modelled from the spec: \<^verbatim>\<open>tracker.ProgressMap\<close>, the progress of every peer by id, an
  association list; \<^verbatim>\<open>ProgressTracker.Progress(id)\<close> is \<open>map_of\<close> (\<open>None\<close> is the nil
  pointer), \<^verbatim>\<open>Visit\<close> goes through the list.
\<close>

type_synonym ProgressMap = "(PeerID \<times> Progress) list"

definition trk_Progress :: "ProgressMap \<Rightarrow> PeerID \<Rightarrow> Progress option" where
  "trk_Progress pm pid = map_of pm pid"

text \<open>Writing through the pointer that \<^verbatim>\<open>Progress(id)\<close> returned.\<close>

definition trk_store :: "ProgressMap \<Rightarrow> PeerID \<Rightarrow> Progress \<Rightarrow> ProgressMap" where
  "trk_store pm pid pr = map (\<lambda>(i, p). if i = pid then (i, pr) else (i, p)) pm"

text \<open>
  Modelled from the spec: \<^verbatim>\<open>ProgressTracker.Committed\<close>, "the largest index replicated on
  a quorum in the current (possibly joint) configuration: for joint, the min over both voter
  sets of their respective majority-Match". A quorum of \<open>n\<close> voters is \<open>n div 2 + 1\<close> of
  them, so the index is the entry at position \<open>n div 2\<close> of the voters' \<open>Match\<close> in falling
  order; a voter without progress counts as 0. Every index is replicated on a quorum of an
  empty set, whose index is the largest word.
\<close>

definition match_of :: "ProgressMap \<Rightarrow> PeerID \<Rightarrow> u64" where
  "match_of pm pid = (case map_of pm pid of Some pr \<Rightarrow> pr_Match pr | None \<Rightarrow> 0)"

definition majority_committed :: "ProgressMap \<Rightarrow> PeerID list \<Rightarrow> u64" where
  "majority_committed pm voters =
     (let vs = remdups voters in
      if vs = [] then - 1
      else rev (sort (map (match_of pm) vs)) ! (length vs div 2))"

definition trk_Committed :: "Config \<Rightarrow> ProgressMap \<Rightarrow> u64" where
  "trk_Committed c pm = min (majority_committed pm (Voters0 c)) (majority_committed pm (Voters1 c))"

text \<open>
  Modelled from the spec: \<^verbatim>\<open>tracker.ElectionTracker\<close> and \<^verbatim>\<open>quorum.VoteResult\<close>, "records
  per-peer grant/reject for one (pre-)election; returns Pending | Won | Lost". The first
  vote recorded for a peer stands. A voter set is won with a quorum of grants, lost when the
  grants and the missing votes together are no quorum, and an empty set is won; a joint
  configuration is won when both sets are, lost when either is.
\<close>

datatype VoteResult = VotePending | VoteLost | VoteWon

type_synonym ElectionTracker = "(PeerID \<times> bool) list"

definition ResetVotes :: "ElectionTracker \<Rightarrow> ElectionTracker" where
  "ResetVotes et = []"

definition RecordVote :: "ElectionTracker \<Rightarrow> PeerID \<Rightarrow> bool \<Rightarrow> ElectionTracker" where
  "RecordVote et pid v = (case map_of et pid of None \<Rightarrow> et @ [(pid, v)] | Some old \<Rightarrow> et)"

definition majority_VoteResult :: "ElectionTracker \<Rightarrow> PeerID list \<Rightarrow> VoteResult" where
  "majority_VoteResult et voters =
     (let vs = remdups voters;
          yes = length (filter (\<lambda>i. map_of et i = Some True) vs);
          missing = length (filter (\<lambda>i. map_of et i = None) vs);
          q = length vs div 2 + 1
      in if vs = [] then VoteWon
         else if yes \<ge> q then VoteWon
         else if yes + missing \<ge> q then VotePending
         else VoteLost)"

definition joint_VoteResult :: "ElectionTracker \<Rightarrow> Config \<Rightarrow> VoteResult" where
  "joint_VoteResult et c =
     (let r1 = majority_VoteResult et (Voters0 c); r2 = majority_VoteResult et (Voters1 c)
      in if r1 = r2 then r1
         else if r1 = VoteLost \<or> r2 = VoteLost then VoteLost
         else VotePending)"

text \<open>The counts of \<^verbatim>\<open>TallyVotes\<close> are those of the voters and learners that voted.\<close>

definition TallyVotes :: "ElectionTracker \<Rightarrow> Config \<Rightarrow> ProgressMap \<Rightarrow> int \<times> int \<times> VoteResult" where
  "TallyVotes et c pm =
     (int (length (filter (\<lambda>(i, p). \<not> pr_IsLearner p \<and> map_of et i = Some True) pm)),
      int (length (filter (\<lambda>(i, p). \<not> pr_IsLearner p \<and> map_of et i = Some False) pm)),
      joint_VoteResult et c)"

subsection \<open>The replica\<close>

datatype tickFunc = tick_Election | tick_Heartbeat

datatype stepFunc = step_Follower | step_Candidate | step_Leader

text \<open>
  The struct \<^verbatim>\<open>raft\<close>. The function pointers \<^verbatim>\<open>tick\<close> and \<^verbatim>\<open>step\<close> are tags, \<^verbatim>\<open>id\<close> is
  \<open>raft_id\<close>, the progress tracker \<^verbatim>\<open>trk\<close> is its progress map (its configuration is
  \<open>config\<close>). The logger and the store liveness handle carry no state of the replica and are
  left out. \<open>globalRand\<close> is the package-level random source: the numbers it will draw.
\<close>

record raft =
  raft_id :: PeerID
  Term :: u64
  Vote :: PeerID
  raftLog :: raftLog
  maxMsgSize :: u64
  maxUncommittedSize :: u64
  config :: Config
  trk :: ProgressMap
  electionTracker :: ElectionTracker
  state :: StateType
  isLearner :: bool
  msgs :: "Message list"
  msgsAfterAppend :: "Message list"
  lead :: PeerID
  leadEpoch :: u64
  leadTransferee :: PeerID
  pendingConfIndex :: u64
  disableConfChangeValidation :: bool
  uncommittedSize :: u64
  electionElapsed :: int
  heartbeatElapsed :: int
  maxInflight :: int
  maxInflightBytes :: u64
  checkQuorum :: bool
  preVote :: bool
  heartbeatTimeout :: int
  electionTimeout :: int
  randomizedElectionTimeout :: int
  disableProposalForwarding :: bool
  stepDownOnRemoval :: bool
  tick :: tickFunc
  step :: stepFunc
  globalRand :: "int stream"

datatype error = ErrProposalDropped

text \<open>Sequencing of operations that may panic.\<close>

definition bindP :: "panic + 'a \<Rightarrow> ('a \<Rightarrow> panic + 'b) \<Rightarrow> panic + 'b" where
  "bindP x f = (case x of Inl p \<Rightarrow> Inl p | Inr a \<Rightarrow> f a)"

text \<open>\<^verbatim>\<open>send\<close> (lines 487-570): stamps the sender and the term and picks the queue.\<close>

definition send :: "raft \<Rightarrow> Message \<Rightarrow> panic + raft" where
  "send r m0 =
     (let m = (if m_From m0 = NoneID then m0\<lparr>m_From := raft_id r\<rparr> else m0) in
      if m_Type m = MsgVote \<or> m_Type m = MsgVoteResp \<or> m_Type m = MsgPreVote \<or>
         m_Type m = MsgPreVoteResp
      then
        (if m_Term m = 0 then Inl (Panic ''term should be set when sending'')
         else if m_Type m = MsgAppResp \<or> m_Type m = MsgVoteResp \<or> m_Type m = MsgPreVoteResp
         then Inr (r\<lparr>msgsAfterAppend := msgsAfterAppend r @ [m]\<rparr>)
         else if m_To m = raft_id r
         then Inl (Panic ''message should not be self-addressed when sending'')
         else Inr (r\<lparr>msgs := msgs r @ [m]\<rparr>))
      else
        (if m_Term m \<noteq> 0 then Inl (Panic ''term should not be set when sending'')
         else
           (let m' = (if m_Type m \<noteq> MsgProp then m\<lparr>m_Term := Term r\<rparr> else m) in
            if m_Type m' = MsgAppResp \<or> m_Type m' = MsgVoteResp \<or> m_Type m' = MsgPreVoteResp
            then Inr (r\<lparr>msgsAfterAppend := msgsAfterAppend r @ [m']\<rparr>)
            else if m_To m' = raft_id r
            then Inl (Panic ''message should not be self-addressed when sending'')
            else Inr (r\<lparr>msgs := msgs r @ [m']\<rparr>))))"

text \<open>
  \<^verbatim>\<open>lockedRand.Intn\<close> (lines 87-92): \<^verbatim>\<open>rand.Int\<close> panics unless its bound is positive, and
  returns a number below the bound.
\<close>

definition Intn :: "int stream \<Rightarrow> int \<Rightarrow> panic + (int \<times> int stream)" where
  "Intn g n =
     (if n \<le> 0 then Inl (Panic ''crypto/rand: argument to Int is <= 0'')
      else Inr (shd g mod n, stl g))"

definition resetRandomizedElectionTimeout :: "raft \<Rightarrow> panic + raft" where
  "resetRandomizedElectionTimeout r =
     bindP (Intn (globalRand r) (electionTimeout r))
       (\<lambda>(v, g). Inr (r\<lparr>randomizedElectionTimeout := electionTimeout r + v, globalRand := g\<rparr>))"

definition abortLeaderTransfer :: "raft \<Rightarrow> raft" where
  "abortLeaderTransfer r = r\<lparr>leadTransferee := NoneID\<rparr>"

text \<open>The progress that \<^verbatim>\<open>reset\<close> writes for peer \<open>pid\<close> in its visit of the tracker.\<close>

definition reset_Progress :: "raft \<Rightarrow> PeerID \<Rightarrow> Progress \<Rightarrow> Progress" where
  "reset_Progress r pid pr =
     \<lparr>pr_Match = (if pid = raft_id r then lastIndex (raftLog r) else 0),
      pr_Next = lastIndex (raftLog r) + 1,
      pr_State = StateProbe,
      pr_PendingSnapshot = 0,
      pr_RecentActive = False,
      pr_MsgAppProbesPaused = False,
      pr_Inflights = NewInflights (maxInflight r) (maxInflightBytes r),
      pr_IsLearner = pr_IsLearner pr\<rparr>"

text \<open>\<^verbatim>\<open>reset\<close> (lines 751-781).\<close>

definition reset :: "raft \<Rightarrow> u64 \<Rightarrow> panic + raft" where
  "reset r t =
     (let r1 = (if Term r \<noteq> t then r\<lparr>Term := t, Vote := NoneID\<rparr> else r);
          r2 = r1\<lparr>lead := NoneID, electionElapsed := 0, heartbeatElapsed := 0\<rparr>
      in bindP (resetRandomizedElectionTimeout r2)
           (\<lambda>r3.
              let r4 = abortLeaderTransfer r3;
                  r5 = r4\<lparr>electionTracker := ResetVotes (electionTracker r4)\<rparr>;
                  r6 = r5\<lparr>trk := map (\<lambda>(pid, pr). (pid, reset_Progress r5 pid pr)) (trk r5)\<rparr>
              in Inr (r6\<lparr>pendingConfIndex := 0, uncommittedSize := 0\<rparr>)))"

text \<open>\<^verbatim>\<open>increaseUncommittedSize\<close> (lines 2048-2062); the sum is a \<^verbatim>\<open>uint64\<close> sum.\<close>

definition increaseUncommittedSize :: "raft \<Rightarrow> Entry list \<Rightarrow> raft \<times> bool" where
  "increaseUncommittedSize r ents =
     (let s = payloadsSize ents in
      if uncommittedSize r > 0 \<and> s > 0 \<and> uncommittedSize r + s > maxUncommittedSize r
      then (r, False)
      else (r\<lparr>uncommittedSize := uncommittedSize r + s\<rparr>, True))"

text \<open>The loop of \<^verbatim>\<open>appendEntry\<close> that stamps the term and the index on each entry.\<close>

definition stamp_entries :: "u64 \<Rightarrow> u64 \<Rightarrow> Entry list \<Rightarrow> Entry list" where
  "stamp_entries t lastidx es =
     map (\<lambda>(i, e). e\<lparr>e_Term := t, e_Index := lastidx + 1 + of_nat i\<rparr>) (enumerate 0 es)"

text \<open>
  \<^verbatim>\<open>appendEntry\<close> (lines 783-821). The result pairs the replica with \<^verbatim>\<open>accepted\<close>. Writing
  \<^verbatim>\<open>Next\<close> through a nil progress pointer is a panic.
\<close>

definition appendEntry :: "raft \<Rightarrow> Entry list \<Rightarrow> panic + (raft \<times> bool)" where
  "appendEntry r es0 =
     (let last = lastEntryID (raftLog r);
          es = stamp_entries (Term r) (eid_index last) es0;
          (r1, ok) = increaseUncommittedSize r es
      in if \<not> ok then Inr (r1, False)
         else
           (let app = \<lparr>ls_term = Term r1, ls_prev = last, ls_entries = es\<rparr> in
            if \<not> ls_valid app then Inl (Panic ''leader could not append to its log: invalid slice'')
            else (case append_log (raftLog r1) app of
                    None \<Rightarrow> Inl (Panic ''leader could not append to its log'')
                  | Some l' \<Rightarrow>
                      (let r2 = r1\<lparr>raftLog := l'\<rparr> in
                       case trk_Progress (trk r2) (raft_id r2) of
                         None \<Rightarrow> Inl (Panic ''nil pointer dereference'')
                       | Some pr \<Rightarrow>
                           (let r3 = r2\<lparr>trk := trk_store (trk r2) (raft_id r2)
                                                (pr\<lparr>pr_Next := ls_lastIndex app + 1\<rparr>)\<rparr>
                            in bindP (send r3 ((Msg MsgAppResp)
                                         \<lparr>m_To := raft_id r3, m_Index := lastIndex (raftLog r3)\<rparr>))
                                 (\<lambda>r4. Inr (r4, True)))))))"

text \<open>\<^verbatim>\<open>maybeCommit\<close> (lines 731-749).\<close>

definition maybeCommit :: "raft \<Rightarrow> raft \<times> bool" where
  "maybeCommit r =
     (let index = trk_Committed (config r) (trk r) in
      if index \<le> committed (raftLog r) then (r, False)
      else if \<not> matchTerm (raftLog r) \<lparr>eid_term = Term r, eid_index = index\<rparr> then (r, False)
      else (r\<lparr>raftLog := commitTo (raftLog r) \<lparr>mark_term = Term r, mark_index = index\<rparr>\<rparr>, True))"

text \<open>\<^verbatim>\<open>becomeFollower\<close> (lines 870-877).\<close>

definition becomeFollower :: "raft \<Rightarrow> u64 \<Rightarrow> PeerID \<Rightarrow> panic + raft" where
  "becomeFollower r t ld =
     bindP (reset (r\<lparr>step := step_Follower\<rparr>) t)
       (\<lambda>r1. Inr (r1\<lparr>tick := tick_Election, lead := ld, state := StateFollower\<rparr>))"

text \<open>\<^verbatim>\<open>becomeCandidate\<close> (lines 879-890).\<close>

definition becomeCandidate :: "raft \<Rightarrow> panic + raft" where
  "becomeCandidate r =
     (if state r = StateLeader then Inl (Panic ''invalid transition [leader -> candidate]'')
      else bindP (reset (r\<lparr>step := step_Candidate\<rparr>) (Term r + 1))
             (\<lambda>r1. Inr (r1\<lparr>tick := tick_Election, Vote := raft_id r1, state := StateCandidate\<rparr>)))"

text \<open>\<^verbatim>\<open>becomePreCandidate\<close> (lines 892-910).\<close>

definition becomePreCandidate :: "raft \<Rightarrow> panic + raft" where
  "becomePreCandidate r =
     (if state r = StateLeader then Inl (Panic ''invalid transition [leader -> pre-candidate]'')
      else Inr (r\<lparr>step := step_Candidate,
                  electionTracker := ResetVotes (electionTracker r),
                  tick := tick_Election,
                  lead := NoneID,
                  state := StatePreCandidate\<rparr>))"

text \<open>\<^verbatim>\<open>pb.Entry{Data: nil}\<close>, the empty entry of a new leader.\<close>

definition emptyEnt :: Entry where
  "emptyEnt = \<lparr>e_Term = 0, e_Index = 0, e_Type = EntryNormal, e_Data = []\<rparr>"

text \<open>\<^verbatim>\<open>becomeLeader\<close> (lines 912-949).\<close>

definition becomeLeader :: "raft \<Rightarrow> panic + raft" where
  "becomeLeader r =
     (if state r = StateFollower then Inl (Panic ''invalid transition [follower -> leader]'')
      else bindP (reset (r\<lparr>step := step_Leader\<rparr>) (Term r))
             (\<lambda>r1.
                let r2 = r1\<lparr>tick := tick_Heartbeat, lead := raft_id r1, state := StateLeader\<rparr> in
                case trk_Progress (trk r2) (raft_id r2) of
                  None \<Rightarrow> Inl (Panic ''nil pointer dereference'')
                | Some pr \<Rightarrow>
                    (let r3 = r2\<lparr>trk := trk_store (trk r2) (raft_id r2)
                                         ((BecomeReplicate pr)\<lparr>pr_RecentActive := True\<rparr>)\<rparr>;
                         r4 = r3\<lparr>pendingConfIndex := lastIndex (raftLog r3)\<rparr>
                     in bindP (appendEntry r4 [emptyEnt])
                          (\<lambda>(r5, accepted).
                             if \<not> accepted then Inl (Panic ''empty entry was dropped'')
                             else Inr r5))))"

text \<open>\<^verbatim>\<open>promotable\<close> (lines 1923-1926).\<close>

definition promotable :: "raft \<Rightarrow> bool" where
  "promotable r =
     (case trk_Progress (trk r) (raft_id r) of
        None \<Rightarrow> False
      | Some pr \<Rightarrow> \<not> pr_IsLearner pr \<and> \<not> hasNextOrInProgressSnapshot (raftLog r))"

text \<open>
  \<^verbatim>\<open>hasUnappliedConfChanges\<close> (lines 973-999): a scan that fails with anything but the
  break of the visitor is a panic.
\<close>

definition hasUnappliedConfChanges :: "raft \<Rightarrow> panic + bool" where
  "hasUnappliedConfChanges r =
     (if applied (raftLog r) \<ge> committed (raftLog r) then Inr False
      else (case scan (raftLog r) (applied (raftLog r) + 1) (committed (raftLog r) + 1) of
              Inl err \<Rightarrow> Inl (Panic ''error scanning unapplied entries'')
            | Inr ents \<Rightarrow>
                Inr (list_ex (\<lambda>e. e_Type e = EntryConfChange \<or> e_Type e = EntryConfChangeV2) ents)))"

text \<open>
  The loop of \<^verbatim>\<open>campaign\<close> over the sorted voters (lines 1030-1050): a vote response to
  itself, a vote request to everyone else.
\<close>

fun campaign_send ::
  "raft \<Rightarrow> CampaignType \<Rightarrow> MessageType \<Rightarrow> u64 \<Rightarrow> PeerID list \<Rightarrow> panic + raft" where
  "campaign_send r t voteMsg term [] = Inr r"
| "campaign_send r t voteMsg term (pid # ids) =
     (if pid = raft_id r then
        (case voteRespMsgType voteMsg of
           Inl p \<Rightarrow> Inl p
         | Inr rt \<Rightarrow>
             (case send r ((Msg rt)\<lparr>m_To := pid, m_Term := term\<rparr>) of
                Inl p \<Rightarrow> Inl p
              | Inr r' \<Rightarrow> campaign_send r' t voteMsg term ids))
      else
        (let last = lastEntryID (raftLog r);
             ctx = (if t = campaignTransfer then CampaignType_bytes t else [])
         in case send r ((Msg voteMsg)\<lparr>m_To := pid, m_Term := term, m_Index := eid_index last,
                           m_LogTerm := eid_term last, m_Context := ctx\<rparr>) of
              Inl p \<Rightarrow> Inl p
            | Inr r' \<Rightarrow> campaign_send r' t voteMsg term ids))"

text \<open>\<^verbatim>\<open>campaign\<close> (lines 1003-1051).\<close>

definition campaign :: "raft \<Rightarrow> CampaignType \<Rightarrow> panic + raft" where
  "campaign r t =
     bindP (if t = campaignPreElection
            then bindP (becomePreCandidate r) (\<lambda>r1. Inr (r1, MsgPreVote, Term r1 + 1))
            else bindP (becomeCandidate r) (\<lambda>r1. Inr (r1, MsgVote, Term r1)))
       (\<lambda>(r1, voteMsg, term).
          campaign_send r1 t voteMsg term (sort (Voters_IDs (config r1))))"

text \<open>\<^verbatim>\<open>hup\<close> (lines 951-968).\<close>

definition hup :: "raft \<Rightarrow> CampaignType \<Rightarrow> panic + raft" where
  "hup r t =
     (if state r = StateLeader then Inr r
      else if \<not> promotable r then Inr r
      else bindP (hasUnappliedConfChanges r)
             (\<lambda>unapplied. if unapplied then Inr r else campaign r t))"

text \<open>\<^verbatim>\<open>poll\<close> (lines 1053-1063).\<close>

definition poll :: "raft \<Rightarrow> PeerID \<Rightarrow> MessageType \<Rightarrow> bool \<Rightarrow> raft \<times> int \<times> int \<times> VoteResult" where
  "poll r pid t v =
     (let r1 = r\<lparr>electionTracker := RecordVote (electionTracker r) pid v\<rparr>
      in (r1, TallyVotes (electionTracker r1) (config r1) (trk r1)))"

subsection \<open>Step\<close>

text \<open>
  The first switch of \<^verbatim>\<open>Step\<close> (lines 1067-1142), on the term of the message. The flag of
  the result says that \<^verbatim>\<open>Step\<close> has returned nil there.
\<close>

definition Step_term :: "raft \<Rightarrow> Message \<Rightarrow> panic + (bool \<times> raft)" where
  "Step_term r m =
     (if m_Term m = 0 then Inr (False, r)
      else if m_Term m > Term r then
        (let force = (m_Context m = CampaignType_bytes campaignTransfer);
             inLease = (checkQuorum r \<and> lead r \<noteq> NoneID \<and> electionElapsed r < electionTimeout r)
         in if (m_Type m = MsgVote \<or> m_Type m = MsgPreVote) \<and> \<not> force \<and> inLease
            then Inr (True, r)
            else if m_Type m = MsgPreVote then Inr (False, r)
            else if m_Type m = MsgPreVoteResp \<and> \<not> m_Reject m then Inr (False, r)
            else if m_Type m = MsgApp \<or> m_Type m = MsgHeartbeat \<or> m_Type m = MsgSnap
            then bindP (becomeFollower r (m_Term m) (m_From m)) (\<lambda>r1. Inr (False, r1))
            else bindP (becomeFollower r (m_Term m) NoneID) (\<lambda>r1. Inr (False, r1)))
      else if m_Term m < Term r then
        (if (checkQuorum r \<or> preVote r) \<and> (m_Type m = MsgHeartbeat \<or> m_Type m = MsgApp)
         then bindP (send r ((Msg MsgAppResp)\<lparr>m_To := m_From m\<rparr>)) (\<lambda>r1. Inr (True, r1))
         else if m_Type m = MsgPreVote
         then bindP (send r ((Msg MsgPreVoteResp)
                       \<lparr>m_To := m_From m, m_Term := Term r, m_Reject := True\<rparr>))
                (\<lambda>r1. Inr (True, r1))
         else Inr (True, r))
      else Inr (False, r))"

text \<open>The case \<^verbatim>\<open>pb.MsgVote, pb.MsgPreVote\<close> of the second switch (lines 1169-1219).\<close>

definition Step_vote :: "raft \<Rightarrow> Message \<Rightarrow> panic + raft" where
  "Step_vote r m =
     (let canVote = (Vote r = m_From m \<or>
                     (Vote r = NoneID \<and> lead r = NoneID) \<or>
                     (m_Type m = MsgPreVote \<and> m_Term m > Term r));
          candLastID = \<lparr>eid_term = m_LogTerm m, eid_index = m_Index m\<rparr>
      in if canVote \<and> isUpToDate (raftLog r) candLastID
         then bindP (voteRespMsgType (m_Type m))
                (\<lambda>rt. bindP (send r ((Msg rt)\<lparr>m_To := m_From m, m_Term := m_Term m\<rparr>))
                   (\<lambda>r1. if m_Type m = MsgVote
                          then Inr (r1\<lparr>electionElapsed := 0, Vote := m_From m\<rparr>)
                          else Inr r1))
         else bindP (voteRespMsgType (m_Type m))
                (\<lambda>rt. send r ((Msg rt)\<lparr>m_To := m_From m, m_Term := Term r, m_Reject := True\<rparr>)))"

text \<open>
  The second switch of \<^verbatim>\<open>Step\<close> (lines 1144-1227), on the type of the message. The
  acknowledgements of the storage threads and the role's step function \<^verbatim>\<open>r.step\<close> (the
  default case) rest on tracker and log methods that the sources do not include; they are
  the parameter \<open>others\<close>. The result pairs the replica with the returned error.
\<close>

definition Step_type ::
  "(raft \<Rightarrow> Message \<Rightarrow> panic + (raft \<times> error option)) \<Rightarrow> raft \<Rightarrow> Message
     \<Rightarrow> panic + (raft \<times> error option)" where
  "Step_type others r m =
     (if m_Type m = MsgHup then
        bindP (if preVote r then hup r campaignPreElection else hup r campaignElection)
          (\<lambda>r1. Inr (r1, None))
      else if m_Type m = MsgVote \<or> m_Type m = MsgPreVote then
        bindP (Step_vote r m) (\<lambda>r1. Inr (r1, None))
      else others r m)"

text \<open>\<^verbatim>\<open>Step\<close> (lines 1065-1228).\<close>

definition Step ::
  "(raft \<Rightarrow> Message \<Rightarrow> panic + (raft \<times> error option)) \<Rightarrow> raft \<Rightarrow> Message
     \<Rightarrow> panic + (raft \<times> error option)" where
  "Step others r m =
     bindP (Step_term r m)
       (\<lambda>(returned, r1). if returned then Inr (r1, None) else Step_type others r1 m)"

subsection \<open>The follower: appends\<close>

text \<open>\<^verbatim>\<open>logSliceFromMsgApp\<close> (lines 1693-1700).\<close>

definition logSliceFromMsgApp :: "Message \<Rightarrow> logSlice" where
  "logSliceFromMsgApp m =
     \<lparr>ls_term = m_Term m,
      ls_prev = \<lparr>eid_term = m_LogTerm m, eid_index = m_Index m\<rparr>,
      ls_entries = m_Entries m\<rparr>"

text \<open>\<^verbatim>\<open>checkMatch\<close> (lines 1762-1772).\<close>

definition checkMatch :: "raft \<Rightarrow> u64 \<Rightarrow> panic + unit" where
  "checkMatch r match =
     (if lastIndex (raftLog r) < match then Inl (Panic ''match is out of range'') else Inr ())"

text \<open>\<^verbatim>\<open>handleAppendEntries\<close> (lines 1702-1758).\<close>

definition handleAppendEntries :: "raft \<Rightarrow> Message \<Rightarrow> panic + raft" where
  "handleAppendEntries r m =
     bindP (checkMatch r (m_Match m))
       (\<lambda>u.
          let a = logSliceFromMsgApp m in
          if \<not> ls_valid a then Inr r
          else if eid_index (ls_prev a) < committed (raftLog r)
          then send r ((Msg MsgAppResp)\<lparr>m_To := m_From m, m_Index := committed (raftLog r)\<rparr>)
          else
            (case maybeAppend (raftLog r) a of
               Some l' \<Rightarrow>
                 (let lastIdx = ls_lastIndex a;
                      r1 = r\<lparr>raftLog := commitTo l'
                                \<lparr>mark_term = m_Term m, mark_index = min (m_Commit m) lastIdx\<rparr>\<rparr>
                  in send r1 ((Msg MsgAppResp)\<lparr>m_To := m_From m, m_Index := lastIdx\<rparr>))
             | None \<Rightarrow>
                 (let hintIndex = min (m_Index m) (lastIndex (raftLog r));
                      (hintIndex', hintTerm) = findConflictByTerm (raftLog r) hintIndex (m_LogTerm m)
                  in send r ((Msg MsgAppResp)
                       \<lparr>m_To := m_From m, m_Index := m_Index m, m_Reject := True,
                        m_RejectHint := hintIndex', m_LogTerm := hintTerm\<rparr>))))"

text \<open>The case \<^verbatim>\<open>pb.MsgApp\<close> of \<^verbatim>\<open>stepFollower\<close> (lines 1650-1658).\<close>

definition stepFollower_MsgApp :: "raft \<Rightarrow> Message \<Rightarrow> panic + (raft \<times> error option)" where
  "stepFollower_MsgApp r m =
     bindP (handleAppendEntries (r\<lparr>electionElapsed := 0, lead := m_From m\<rparr>) m)
       (\<lambda>r1. Inr (r1, None))"

subsection \<open>Broadcasting appends\<close>

text \<open>
  \<^verbatim>\<open>bcastAppend\<close> (lines 674-681) visits every peer but the replica itself with
  \<^verbatim>\<open>maybeSendAppend\<close>. That function decides with tracker methods
  (\<^verbatim>\<open>ShouldSendMsgApp\<close>, \<^verbatim>\<open>CanSendEntries\<close>, the in-flight window) that the sources do not
  include, so it is the parameter \<open>msa\<close>.
\<close>

fun bcast_visit ::
  "(raft \<Rightarrow> PeerID \<Rightarrow> panic + (raft \<times> bool)) \<Rightarrow> raft \<Rightarrow> PeerID list \<Rightarrow> panic + raft" where
  "bcast_visit msa r [] = Inr r"
| "bcast_visit msa r (pid # ids) =
     (if pid = raft_id r then bcast_visit msa r ids
      else (case msa r pid of
              Inl p \<Rightarrow> Inl p
            | Inr (r', sent) \<Rightarrow> bcast_visit msa r' ids))"

definition bcastAppend :: "(raft \<Rightarrow> PeerID \<Rightarrow> panic + (raft \<times> bool)) \<Rightarrow> raft \<Rightarrow> panic + raft" where
  "bcastAppend msa r = bcast_visit msa r (map fst (trk r))"

subsection \<open>The candidate: vote responses\<close>

text \<open>
  The case \<^verbatim>\<open>myVoteRespType\<close> of \<^verbatim>\<open>stepCandidate\<close> (lines 1613-1628), for a message whose
  type is \<open>myVoteRespType r\<close>.
\<close>

definition myVoteRespType :: "raft \<Rightarrow> MessageType" where
  "myVoteRespType r = (if state r = StatePreCandidate then MsgPreVoteResp else MsgVoteResp)"

definition stepCandidate_voteResp ::
  "(raft \<Rightarrow> PeerID \<Rightarrow> panic + (raft \<times> bool)) \<Rightarrow> raft \<Rightarrow> Message
     \<Rightarrow> panic + (raft \<times> error option)" where
  "stepCandidate_voteResp msa r m =
     (let (r1, gr, rj, res) = poll r (m_From m) (m_Type m) (\<not> m_Reject m) in
      case res of
        VoteWon \<Rightarrow>
          (if state r1 = StatePreCandidate
           then bindP (campaign r1 campaignElection) (\<lambda>r2. Inr (r2, None))
           else bindP (becomeLeader r1)
                  (\<lambda>r2. bindP (bcastAppend msa r2) (\<lambda>r3. Inr (r3, None))))
      | VoteLost \<Rightarrow> bindP (becomeFollower r1 (Term r1) (lead r1)) (\<lambda>r2. Inr (r2, None))
      | VotePending \<Rightarrow> Inr (r1, None))"

subsection \<open>The leader: proposals\<close>

text \<open>
  Modelled from the spec: \<^verbatim>\<open>pb.ConfChange\<close>, \<^verbatim>\<open>pb.ConfChangeV2\<close> and \<^verbatim>\<open>AsV2\<close> (raftpb is
  not among the sources). Section 4.3.5 decodes an entry of either type "into a
  ConfChangeV2 shape", whose list of changes is empty when the change asks to leave a joint
  configuration; a version-1 change is one change of one node.
\<close>

datatype ConfChangeType =
  ConfChangeAddNode | ConfChangeRemoveNode | ConfChangeUpdateNode | ConfChangeAddLearnerNode

record ConfChangeSingle =
  ccs_Type :: ConfChangeType
  ccs_NodeID :: PeerID

record ConfChange =
  cc_Type :: ConfChangeType
  cc_NodeID :: PeerID
  cc_Context :: string

record ConfChangeV2 =
  ccv2_Changes :: "ConfChangeSingle list"
  ccv2_Context :: string

datatype ConfChangeI = CC ConfChange | CCV2 ConfChangeV2

fun AsV2 :: "ConfChangeI \<Rightarrow> ConfChangeV2" where
  "AsV2 (CC c) =
     \<lparr>ccv2_Changes = [\<lparr>ccs_Type = cc_Type c, ccs_NodeID = cc_NodeID c\<rparr>],
      ccv2_Context = cc_Context c\<rparr>"
| "AsV2 (CCV2 c) = c"

text \<open>
  Lines 1274-1287: the entry's data decoded by its type. The generated \<^verbatim>\<open>Unmarshal\<close>
  methods are the parameters \<open>um1\<close> and \<open>um2\<close> (\<open>None\<close> is a decoding error, on which the
  source panics); an entry of another type leaves \<^verbatim>\<open>cc\<close> nil.
\<close>

definition decodeConfChange ::
  "(string \<Rightarrow> ConfChange option) \<Rightarrow> (string \<Rightarrow> ConfChangeV2 option) \<Rightarrow> Entry
     \<Rightarrow> panic + ConfChangeI option" where
  "decodeConfChange um1 um2 e =
     (if e_Type e = EntryConfChange then
        (case um1 (e_Data e) of
           None \<Rightarrow> Inl (Panic ''unmarshal ConfChange'')
         | Some ccc \<Rightarrow> Inr (Some (CC ccc)))
      else if e_Type e = EntryConfChangeV2 then
        (case um2 (e_Data e) of
           None \<Rightarrow> Inl (Panic ''unmarshal ConfChangeV2'')
         | Some ccc \<Rightarrow> Inr (Some (CCV2 ccc)))
      else Inr None)"

text \<open>
  The body of the loop over \<^verbatim>\<open>m.Entries\<close> (lines 1273-1318) at position \<open>i\<close>: the replica
  and the entry that stands at that position afterwards. The first message of
  \<^verbatim>\<open>failedCheck\<close> is formatted with the two indexes; only its being non-empty matters.
\<close>

definition propEntry ::
  "(string \<Rightarrow> ConfChange option) \<Rightarrow> (string \<Rightarrow> ConfChangeV2 option) \<Rightarrow> raft \<Rightarrow> nat \<Rightarrow> Entry
     \<Rightarrow> panic + (raft \<times> Entry)" where
  "propEntry um1 um2 r i e =
     bindP (decodeConfChange um1 um2 e)
       (\<lambda>cc. case cc of
                None \<Rightarrow> Inr (r, e)
              | Some c \<Rightarrow>
                  (let alreadyPending = (pendingConfIndex r > applied (raftLog r));
                       alreadyJoint = (length (Voters1 (config r)) > 0);
                       wantsLeaveJoint = (length (ccv2_Changes (AsV2 c)) = 0);
                       failedCheck =
                         (if alreadyPending then ''possible unapplied conf change''
                          else if alreadyJoint \<and> \<not> wantsLeaveJoint
                          then ''must transition out of joint config first''
                          else if \<not> alreadyJoint \<and> wantsLeaveJoint
                          then ''not in joint state; refusing empty conf change''
                          else [])
                   in if alreadyPending \<or> (failedCheck \<noteq> [] \<and> \<not> disableConfChangeValidation r)
                      then Inr (r, Entry_of_Type EntryNormal)
                      else Inr (r\<lparr>pendingConfIndex := lastIndex (raftLog r) + of_nat i + 1\<rparr>, e)))"

fun propLoop ::
  "(string \<Rightarrow> ConfChange option) \<Rightarrow> (string \<Rightarrow> ConfChangeV2 option) \<Rightarrow> raft \<Rightarrow> nat
     \<Rightarrow> Entry list \<Rightarrow> panic + (raft \<times> Entry list)" where
  "propLoop um1 um2 r i [] = Inr (r, [])"
| "propLoop um1 um2 r i (e # es) =
     (case propEntry um1 um2 r i e of
        Inl p \<Rightarrow> Inl p
      | Inr (r1, e1) \<Rightarrow>
          (case propLoop um1 um2 r1 (Suc i) es of
             Inl p \<Rightarrow> Inl p
           | Inr (r2, es2) \<Rightarrow> Inr (r2, e1 # es2)))"

text \<open>The case \<^verbatim>\<open>pb.MsgProp\<close> of \<^verbatim>\<open>stepLeader\<close> (lines 1257-1325).\<close>

definition stepLeader_MsgProp ::
  "(string \<Rightarrow> ConfChange option) \<Rightarrow> (string \<Rightarrow> ConfChangeV2 option)
     \<Rightarrow> (raft \<Rightarrow> PeerID \<Rightarrow> panic + (raft \<times> bool)) \<Rightarrow> raft \<Rightarrow> Message
     \<Rightarrow> panic + (raft \<times> error option)" where
  "stepLeader_MsgProp um1 um2 msa r m =
     (if length (m_Entries m) = 0 then Inl (Panic ''stepped empty MsgProp'')
      else if trk_Progress (trk r) (raft_id r) = None then Inr (r, Some ErrProposalDropped)
      else if leadTransferee r \<noteq> NoneID then Inr (r, Some ErrProposalDropped)
      else bindP (propLoop um1 um2 r 0 (m_Entries m))
             (\<lambda>(r1, es).
                bindP (appendEntry r1 es)
                  (\<lambda>(r2, accepted).
                     if \<not> accepted then Inr (r2, Some ErrProposalDropped)
                     else bindP (bcastAppend msa r2) (\<lambda>r3. Inr (r3, None)))))"

subsection \<open>Concrete replicas\<close>

text \<open>
  A replica with id 1 in a group of three voters, at term 2, with a log of three entries
  of which two are committed and applied.
\<close>

definition ex_log :: raftLog where
  "ex_log =
     \<lparr>snapIndex = 0, snapTerm = 0,
      entries = [\<lparr>e_Term = 1, e_Index = 1, e_Type = EntryNormal, e_Data = []\<rparr>,
                 \<lparr>e_Term = 1, e_Index = 2, e_Type = EntryNormal, e_Data = ''ab''\<rparr>,
                 \<lparr>e_Term = 2, e_Index = 3, e_Type = EntryNormal, e_Data = []\<rparr>],
      committed = 2, applied = 2, accTerm = 2, pendingSnap = False,
      maxApplyingEntsSize = 1024\<rparr>"

definition ex_progress :: "u64 \<Rightarrow> Progress" where
  "ex_progress mt =
     \<lparr>pr_Match = mt, pr_Next = mt + 1, pr_State = StateProbe, pr_PendingSnapshot = 0,
      pr_RecentActive = False, pr_MsgAppProbesPaused = False,
      pr_Inflights = NewInflights 16 1024, pr_IsLearner = False\<rparr>"

definition ex_raft :: raft where
  "ex_raft =
     \<lparr>raft_id = 1, Term = 2, Vote = 0, raftLog = ex_log, maxMsgSize = 1024,
      maxUncommittedSize = 8,
      config = \<lparr>Voters0 = [1, 2, 3], Voters1 = [], Learners = [], LearnersNext = [],
                AutoLeave = False\<rparr>,
      trk = [(1, ex_progress 3), (2, ex_progress 3), (3, ex_progress 0)],
      electionTracker = [], state = StateFollower, isLearner = False, msgs = [],
      msgsAfterAppend = [], lead = 0, leadEpoch = 0, leadTransferee = 0,
      pendingConfIndex = 0, disableConfChangeValidation = False, uncommittedSize = 0,
      electionElapsed = 0, heartbeatElapsed = 0, maxInflight = 16, maxInflightBytes = 1024,
      checkQuorum = True, preVote = True, heartbeatTimeout = 1, electionTimeout = 10,
      randomizedElectionTimeout = 10, disableProposalForwarding = False,
      stepDownOnRemoval = False, tick = tick_Election, step = step_Follower,
      globalRand = sconst 3\<rparr>"

section \<open>Properties\<close>

subsection \<open>Sending\<close>

text \<open>\<^verbatim>\<open>send\<close> with its two nested conditionals flattened.\<close>

lemma send_cases:
  "send r m =
     (let camp = (m_Type m = MsgVote \<or> m_Type m = MsgVoteResp \<or> m_Type m = MsgPreVote \<or>
                  m_Type m = MsgPreVoteResp);
          resp = (m_Type m = MsgAppResp \<or> m_Type m = MsgVoteResp \<or> m_Type m = MsgPreVoteResp);
          m' = m\<lparr>m_From := (if m_From m = NoneID then raft_id r else m_From m),
                  m_Term := (if camp then m_Term m else if m_Type m = MsgProp then 0 else Term r)\<rparr>
      in if camp \<and> m_Term m = 0 then Inl (Panic ''term should be set when sending'')
         else if \<not> camp \<and> m_Term m \<noteq> 0
         then Inl (Panic ''term should not be set when sending'')
         else if resp then Inr (r\<lparr>msgsAfterAppend := msgsAfterAppend r @ [m']\<rparr>)
         else if m_To m = raft_id r
         then Inl (Panic ''message should not be self-addressed when sending'')
         else Inr (r\<lparr>msgs := msgs r @ [m']\<rparr>))"
  by (cases "m_Type m"; cases "m_From m = NoneID"; cases "m_Term m = 0";
      simp add: send_def Let_def)

text \<open>
  Claim C7. Every message that \<^verbatim>\<open>send\<close> enqueues goes, stamped with the sender, to
  \<open>msgsAfterAppend\<close> when it is an append response, a vote response or a pre-vote response,
  and to \<open>msgs\<close> otherwise, and nothing else of the replica changes. A proposal is enqueued
  with term 0; a vote or pre-vote message (request or response) keeps the non-zero term it
  was given, the campaign term; every other message carries the replica's current term.
\<close>

theorem send_queue_and_term:
  assumes "send r m = Inr r'"
  shows "(let camp = (m_Type m = MsgVote \<or> m_Type m = MsgVoteResp \<or> m_Type m = MsgPreVote \<or>
                       m_Type m = MsgPreVoteResp);
              resp = (m_Type m = MsgAppResp \<or> m_Type m = MsgVoteResp \<or>
                       m_Type m = MsgPreVoteResp);
              m' = m\<lparr>m_From := (if m_From m = NoneID then raft_id r else m_From m),
                      m_Term := (if camp then m_Term m
                                 else if m_Type m = MsgProp then 0 else Term r)\<rparr>
          in (resp \<longrightarrow> r' = r\<lparr>msgsAfterAppend := msgsAfterAppend r @ [m']\<rparr>) \<and>
             (\<not> resp \<longrightarrow> r' = r\<lparr>msgs := msgs r @ [m']\<rparr>) \<and>
             (camp \<longrightarrow> m_Term m \<noteq> 0) \<and>
             (m_Type m = MsgProp \<longrightarrow> m_Term m' = 0) \<and>
             (\<not> camp \<and> m_Type m \<noteq> MsgProp \<longrightarrow> m_Term m' = Term r))"
  using assms
  by (cases "m_Type m"; auto simp: send_cases Let_def split: if_splits)

theorem send_queue_and_term_witness:
  "send ex_raft ((Msg MsgAppResp)\<lparr>m_To := 2\<rparr>) =
     Inr (ex_raft\<lparr>msgsAfterAppend := [(Msg MsgAppResp)\<lparr>m_To := 2, m_From := 1, m_Term := 2\<rparr>]\<rparr>) \<and>
   send ex_raft ((Msg MsgProp)\<lparr>m_To := 2\<rparr>) =
     Inr (ex_raft\<lparr>msgs := [(Msg MsgProp)\<lparr>m_To := 2, m_From := 1\<rparr>]\<rparr>)"
proof -
  obtain r1 where h1: "send ex_raft ((Msg MsgAppResp)\<lparr>m_To := 2\<rparr>) = Inr r1"
    by (simp add: send_cases Let_def Msg_def)
  obtain r2 where h2: "send ex_raft ((Msg MsgProp)\<lparr>m_To := 2\<rparr>) = Inr r2"
    by (simp add: send_cases Let_def Msg_def ex_raft_def)
  have "r1 = ex_raft\<lparr>msgsAfterAppend :=
                [(Msg MsgAppResp)\<lparr>m_To := 2, m_From := 1, m_Term := 2\<rparr>]\<rparr>"
    using send_queue_and_term [OF h1] by (simp add: Let_def Msg_def NoneID_def ex_raft_def)
  moreover have "r2 = ex_raft\<lparr>msgs := [(Msg MsgProp)\<lparr>m_To := 2, m_From := 1\<rparr>]\<rparr>"
    using send_queue_and_term [OF h2] by (simp add: Let_def Msg_def NoneID_def ex_raft_def)
  ultimately show ?thesis using h1 h2 by simp
qed

subsection \<open>Role transitions\<close>

text \<open>
  Claim C9. The transitions follower to leader, leader to candidate and leader to
  pre-candidate do not happen: \<^verbatim>\<open>becomeLeader\<close> of a follower, and \<^verbatim>\<open>becomeCandidate\<close>
  and \<^verbatim>\<open>becomePreCandidate\<close> of a leader, panic and return no replica.
\<close>

theorem disallowed_transitions_panic:
  "(state r = StateFollower \<longrightarrow>
      becomeLeader r = Inl (Panic ''invalid transition [follower -> leader]'')) \<and>
   (state r = StateLeader \<longrightarrow>
      becomeCandidate r = Inl (Panic ''invalid transition [leader -> candidate]'') \<and>
      becomePreCandidate r = Inl (Panic ''invalid transition [leader -> pre-candidate]''))"
  by (simp add: becomeLeader_def becomeCandidate_def becomePreCandidate_def)

theorem disallowed_transitions_panic_witness:
  "becomeLeader ex_raft = Inl (Panic ''invalid transition [follower -> leader]'') \<and>
   becomeCandidate (ex_raft\<lparr>state := StateLeader\<rparr>) =
     Inl (Panic ''invalid transition [leader -> candidate]'') \<and>
   becomePreCandidate (ex_raft\<lparr>state := StateLeader\<rparr>) =
     Inl (Panic ''invalid transition [leader -> pre-candidate]'')"
proof -
  have f: "state ex_raft = StateFollower" by (simp add: ex_raft_def)
  have l: "state (ex_raft\<lparr>state := StateLeader\<rparr>) = StateLeader" by simp
  show ?thesis
    using disallowed_transitions_panic [of ex_raft]
      disallowed_transitions_panic [of "ex_raft\<lparr>state := StateLeader\<rparr>"] f l
    by simp
qed

end
